theory Spec2Isabelle
  imports Complex_Main
begin

section \<open>Numbers, vectors and the library primitives the components call\<close>

text \<open>
  The program is TypeScript on three.js and React. A JavaScript number is modelled as a
  real: every statement below is about the arithmetic the source writes down, read over
  the reals (no rounding). \<open>Math.sin\<close>, \<open>Math.cos\<close>, \<open>Math.sqrt\<close>, \<open>Math.exp\<close>,
  \<open>Math.acos\<close> and \<open>Math.cbrt\<close> are \<open>sin\<close>, \<open>cos\<close>, \<open>sqrt\<close>, \<open>exp\<close>, \<open>arccos\<close>
  and \<open>root 3\<close>; \<open>Math.pow(b, 3)\<close> is \<open>b ^ 3\<close>.
\<close>

datatype Vector3 = Vector3 (vx: real) (vy: real) (vz: real)

text \<open>\<open>THREE.Vector3\<close>: \<open>add\<close>, \<open>multiplyScalar\<close>, \<open>length\<close>, \<open>normalize\<close>
  (which divides by \<open>length() || 1\<close>, so the zero vector stays zero) and \<open>lerpVectors\<close>.\<close>

definition add_v :: "Vector3 \<Rightarrow> Vector3 \<Rightarrow> Vector3" where
  "add_v a b = Vector3 (vx a + vx b) (vy a + vy b) (vz a + vz b)"

definition multiplyScalar :: "Vector3 \<Rightarrow> real \<Rightarrow> Vector3" where
  "multiplyScalar a s = Vector3 (vx a * s) (vy a * s) (vz a * s)"

definition length_v :: "Vector3 \<Rightarrow> real" where
  "length_v a = sqrt (vx a * vx a + vy a * vy a + vz a * vz a)"

definition normalize :: "Vector3 \<Rightarrow> Vector3" where
  "normalize a = multiplyScalar a (1 / (if length_v a = 0 then 1 else length_v a))"

definition lerpVectors :: "Vector3 \<Rightarrow> Vector3 \<Rightarrow> real \<Rightarrow> Vector3" where
  "lerpVectors v1 v2 alpha =
     Vector3 (vx v1 + (vx v2 - vx v1) * alpha)
             (vy v1 + (vy v2 - vy v1) * alpha)
             (vz v1 + (vz v2 - vz v1) * alpha)"

text \<open>\<open>THREE.MathUtils.lerp\<close> and \<open>THREE.MathUtils.damp\<close>.\<close>

definition lerp :: "real \<Rightarrow> real \<Rightarrow> real \<Rightarrow> real" where
  "lerp x y t = (1 - t) * x + t * y"

definition damp :: "real \<Rightarrow> real \<Rightarrow> real \<Rightarrow> real \<Rightarrow> real" where
  "damp x y lambda dt = lerp x y (1 - exp (- lambda * dt))"

text \<open>GLSL \<open>mix\<close> on \<open>vec3\<close>, \<open>clamp\<close> and \<open>smoothstep\<close>.\<close>

definition mix :: "Vector3 \<Rightarrow> Vector3 \<Rightarrow> real \<Rightarrow> Vector3" where
  "mix a b t =
     Vector3 (vx a * (1 - t) + vx b * t) (vy a * (1 - t) + vy b * t) (vz a * (1 - t) + vz b * t)"

definition clamp :: "real \<Rightarrow> real \<Rightarrow> real \<Rightarrow> real" where
  "clamp x lo hi = min (max x lo) hi"

definition smoothstep :: "real \<Rightarrow> real \<Rightarrow> real \<Rightarrow> real" where
  "smoothstep e0 e1 x = (let t = clamp ((x - e0) / (e1 - e0)) 0 1 in t * t * (3 - 2 * t))"

text \<open>
  \<open>Math.random()\<close>: the generator is the sequence of the numbers it will return; a call
  returns the head and leaves the tail. Each draw lies in \<open>[0, 1)\<close>.
\<close>

type_synonym rng = "nat \<Rightarrow> real"

definition Math_random :: "rng \<Rightarrow> real \<times> rng" where
  "Math_random g = (g 0, \<lambda>n. g (Suc n))"

definition const_draws :: "real \<Rightarrow> rng" where
  "const_draws c = (\<lambda>n. c)"

definition uniform_draws :: "rng \<Rightarrow> bool" where
  "uniform_draws g \<longleftrightarrow> (\<forall>n. 0 \<le> g n \<and> g n < 1)"

section \<open>Spatial distribution functions (utils/math.ts)\<close>

definition randomSpherePoint :: "real \<Rightarrow> rng \<Rightarrow> Vector3 \<times> rng" where
  "randomSpherePoint radius g =
     (case Math_random g of (u, g1) \<Rightarrow>
      case Math_random g1 of (v, g2) \<Rightarrow>
      let theta = 2 * pi * u;
          phi = arccos (2 * v - 1) in
      case Math_random g2 of (w, g3) \<Rightarrow>
      let r = root 3 w * radius;
          sinPhi = sin phi;
          x = r * sinPhi * cos theta;
          y = r * sinPhi * sin theta;
          z = r * cos phi
      in (Vector3 x y z, g3))"

text \<open>\<open>getTreePosition\<close> is called with a positive \<open>count\<close> (the model is for \<open>count \<noteq> 0\<close>).\<close>

definition getTreePosition :: "real \<Rightarrow> real \<Rightarrow> real \<Rightarrow> real \<Rightarrow> real \<Rightarrow> Vector3" where
  "getTreePosition i count radiusBase height yOffset =
     (let p = i / count;
          angle = p * pi * 40;
          y = height * p;
          r = radiusBase * (1 - p);
          x = r * cos angle;
          z = r * sin angle
      in Vector3 x (y + yOffset) z)"

definition getTreeSurfacePosition :: "real \<Rightarrow> real \<Rightarrow> real \<Rightarrow> rng \<Rightarrow> Vector3 \<times> rng" where
  "getTreeSurfacePosition radiusBase height yOffset g =
     (case Math_random g of (u, g1) \<Rightarrow>
      let hRatio = 1 - sqrt u;
          y = height * hRatio;
          r = radiusBase * (1 - hRatio) in
      case Math_random g1 of (u2, g2) \<Rightarrow>
      let theta = u2 * pi * 2;
          x = r * cos theta;
          z = r * sin theta
      in (Vector3 x (y + yOffset) z, g2))"

section \<open>Progress controller of each component (the \<open>useFrame\<close> callbacks)\<close>

text \<open>
  \<open>TreeMode\<close> is a string enum and every component takes \<open>mode: string\<close>; each
  \<open>useFrame\<close> begins with \<open>mode === TreeMode.FORMED ? 1 : 0\<close>.
\<close>

definition CHAOS :: string where "CHAOS = ''CHAOS''"
definition FORMED :: string where "FORMED = ''FORMED''"

definition targetMode :: "string \<Rightarrow> real" where
  "targetMode mode = (if mode = FORMED then 1 else 0)"

text \<open>
  One function per component: the new value of \<open>progress.current\<close> (or of the
  \<open>uProgress\<close> uniform) from the mode, the old value and the \<open>delta\<close> that the render loop
  passes to the callback. Foliage and Snow declare \<open>useFrame((state) => ...)\<close> and never
  read \<open>delta\<close>. The bodies are modelled for an attached mesh or material (each callback
  returns at once while its ref is still null). \<open>Ornaments\<close> computes \<open>1.0 / weight\<close>:
  every \<open>weight\<close> the scene passes is positive, and the model is meant for a nonzero
  weight only (JavaScript divides by zero to \<open>Infinity\<close>, HOL to \<open>0\<close>).
\<close>

definition Ornaments_progress :: "real \<Rightarrow> string \<Rightarrow> real \<Rightarrow> real \<Rightarrow> real" where
  "Ornaments_progress weight mode p delta =
     (let dampSpeed = 1 / weight in damp p (targetMode mode) dampSpeed delta)"

definition Trunk_progress :: "string \<Rightarrow> real \<Rightarrow> real \<Rightarrow> real" where
  "Trunk_progress mode p delta = damp p (targetMode mode) (12 / 10) delta"

definition Leaves_progress :: "string \<Rightarrow> real \<Rightarrow> real \<Rightarrow> real" where
  "Leaves_progress mode p delta = damp p (targetMode mode) (15 / 10) delta"

definition Ribbon_progress :: "string \<Rightarrow> real \<Rightarrow> real \<Rightarrow> real" where
  "Ribbon_progress mode p delta = damp p (targetMode mode) 1 delta"

definition Star_progress :: "string \<Rightarrow> real \<Rightarrow> real \<Rightarrow> real" where
  "Star_progress mode p delta = damp p (targetMode mode) (8 / 10) delta"

definition PolaroidItem_progress :: "string \<Rightarrow> real \<Rightarrow> real \<Rightarrow> real" where
  "PolaroidItem_progress mode p delta = damp p (targetMode mode) (12 / 10) delta"

definition Foliage_progress :: "string \<Rightarrow> real \<Rightarrow> real \<Rightarrow> real" where
  "Foliage_progress mode p delta = lerp p (targetMode mode) (2 / 100)"

definition Snow_progress :: "string \<Rightarrow> real \<Rightarrow> real \<Rightarrow> real" where
  "Snow_progress mode p delta = lerp p (targetMode mode) (2 / 100)"

definition TreeLights_progress :: "string \<Rightarrow> real \<Rightarrow> real \<Rightarrow> real" where
  "TreeLights_progress mode p delta = lerp p (targetMode mode) (delta * 1)"

text \<open>The component families, to speak about all of them at once.\<close>

datatype component =
    Foliage | Snow | TreeLights | Ornaments real | Trunk | Leaves | Ribbon | Star | PolaroidItem

fun progress_step :: "component \<Rightarrow> string \<Rightarrow> real \<Rightarrow> real \<Rightarrow> real" where
  "progress_step Foliage = Foliage_progress"
| "progress_step Snow = Snow_progress"
| "progress_step TreeLights = TreeLights_progress"
| "progress_step (Ornaments weight) = Ornaments_progress weight"
| "progress_step Trunk = Trunk_progress"
| "progress_step Leaves = Leaves_progress"
| "progress_step Ribbon = Ribbon_progress"
| "progress_step Star = Star_progress"
| "progress_step PolaroidItem = PolaroidItem_progress"

text \<open>The components that advance their progress with \<open>THREE.MathUtils.damp\<close>.\<close>

fun damped :: "component \<Rightarrow> bool" where
  "damped Foliage = False"
| "damped Snow = False"
| "damped TreeLights = False"
| "damped (Ornaments weight) = True"
| "damped Trunk = True"
| "damped Leaves = True"
| "damped Ribbon = True"
| "damped Star = True"
| "damped PolaroidItem = True"

text \<open>A run of frames with the mode held: one \<open>delta\<close> per rendered frame, from a
  progress that every component initialises to \<open>0\<close> (\<open>useRef(0)\<close>, \<open>uProgress: 0\<close>).\<close>

definition initial_progress :: real where
  "initial_progress = 0"

fun run_frames :: "component \<Rightarrow> string \<Rightarrow> real \<Rightarrow> real list \<Rightarrow> real" where
  "run_frames c mode p [] = p"
| "run_frames c mode p (delta # ds) = run_frames c mode (progress_step c mode p delta) ds"

section \<open>Rendered transform of each component\<close>

text \<open>The cubic ease every component applies, \<open>1 - Math.pow(1 - t, 3)\<close>.\<close>

definition easedT :: "real \<Rightarrow> real" where
  "easedT t = 1 - (1 - t) ^ 3"

subsection \<open>Ornaments\<close>

record OrnamentInstance =
  d_chaos :: Vector3
  d_target :: Vector3
  d_color :: "string option"
  d_scale :: real
  d_phase :: real
  d_rotSpeed :: real
  d_wobbleSpeed :: real

record OrnamentsProps =
  p_count :: nat
  p_type :: string
  p_colorPalette :: "string list"
  p_scaleRange :: "real \<times> real"
  p_weight :: real
  p_emissive :: bool
  p_emissiveIntensity :: real
  p_geometryScale :: Vector3

text \<open>The body of the \<open>useMemo\<close> map callback: one instance, ten draws.
  \<open>colorPalette[k]\<close> beyond the palette is \<open>undefined\<close>, here \<open>None\<close>.\<close>

definition Ornaments_instance :: "OrnamentsProps \<Rightarrow> rng \<Rightarrow> OrnamentInstance \<times> rng" where
  "Ornaments_instance props g =
     (case randomSpherePoint 25 g of (chaos, g1) \<Rightarrow>
      case getTreeSurfacePosition 4 (95 / 10) (- 5) g1 of (target0, g2) \<Rightarrow>
      let pushFactor = 25 / 100;
          horizontalDir = normalize (Vector3 (vx target0) 0 (vz target0));
          target = add_v target0 (multiplyScalar horizontalDir pushFactor) in
      case Math_random g2 of (r1, g3) \<Rightarrow>
      let k = nat \<lfloor>r1 * real (length (p_colorPalette props))\<rfloor>;
          colorHex = (if k < length (p_colorPalette props) then Some (p_colorPalette props ! k)
                      else None) in
      case Math_random g3 of (r2, g4) \<Rightarrow>
      let scale = r2 * (snd (p_scaleRange props) - fst (p_scaleRange props)) + fst (p_scaleRange props) in
      case Math_random g4 of (r3, g5) \<Rightarrow>
      case Math_random g5 of (r4, g6) \<Rightarrow>
      case Math_random g6 of (r5, g7) \<Rightarrow>
      (\<lparr>d_chaos = chaos, d_target = target, d_color = colorHex, d_scale = scale,
        d_phase = r3 * pi * 2, d_rotSpeed = (r4 - 5 / 10) * 2, d_wobbleSpeed = 1 + r5\<rparr>, g7))"

text \<open>\<open>new Array(count).fill(0).map(...)\<close>: the instances in index order.\<close>

fun Ornaments_data_from :: "nat \<Rightarrow> OrnamentsProps \<Rightarrow> rng \<Rightarrow> OrnamentInstance list \<times> rng" where
  "Ornaments_data_from 0 props g = ([], g)"
| "Ornaments_data_from (Suc n) props g =
     (case Ornaments_instance props g of (d, g1) \<Rightarrow>
      case Ornaments_data_from n props g1 of (ds, g2) \<Rightarrow> (d # ds, g2))"

definition Ornaments_data :: "OrnamentsProps \<Rightarrow> rng \<Rightarrow> OrnamentInstance list" where
  "Ornaments_data props g = fst (Ornaments_data_from (p_count props) props g)"

record Transform =
  t_position :: Vector3
  t_rotation :: Vector3
  t_scale :: Vector3

text \<open>The pulse factor \<open>scaleMult\<close> and the body of \<open>data.forEach\<close> in \<open>useFrame\<close>, for
  the progress \<open>t\<close> after this frame's update and the clock time \<open>time\<close>.\<close>

definition Ornaments_scaleMult :: "OrnamentsProps \<Rightarrow> real \<Rightarrow> real \<Rightarrow> OrnamentInstance \<Rightarrow> real" where
  "Ornaments_scaleMult props t time d =
     (if (p_emissive props \<or> p_type props = ''star'') \<and> t > 9 / 10
      then 1 + sin (time * 3 + d_phase d) * (2 / 10) else 1)"

definition Ornaments_transform :: "OrnamentsProps \<Rightarrow> real \<Rightarrow> real \<Rightarrow> OrnamentInstance \<Rightarrow> Transform" where
  "Ornaments_transform props t time d =
     (let pos0 = lerpVectors (d_chaos d) (d_target d) (easedT t);
          chaosRot = time * d_rotSpeed d;
          formedRotX = sin (time * d_wobbleSpeed d + d_phase d) * (15 / 100);
          formedRotY = time * (5 / 10) + d_phase d;
          rot = Vector3 (lerp chaosRot formedRotX (easedT t))
                        (lerp chaosRot formedRotY (easedT t))
                        (lerp chaosRot 0 (easedT t));
          pos = (if t > 8 / 10
                 then Vector3 (vx pos0) (vy pos0 + sin (time * 2 + d_phase d) * (5 / 100)) (vz pos0)
                 else pos0);
          scaleMult = Ornaments_scaleMult props t time d;
          finalScale = d_scale d * (8 / 10 + 2 / 10 * easedT t) * scaleMult
      in \<lparr>t_position = pos, t_rotation = rot,
          t_scale = Vector3 (finalScale * vx (p_geometryScale props))
                            (finalScale * vy (p_geometryScale props))
                            (finalScale * vz (p_geometryScale props))\<rparr>)"

text \<open>The bell population of the scene (\<open>Scene\<close>, item 4): 60 cones, \<open>scaleRange =
  [0.25, 0.4]\<close>, \<open>weight = 0.6\<close>, the defaults for the optional props; the palette depends
  on the theme.\<close>

definition Scene_bells :: "string \<Rightarrow> OrnamentsProps" where
  "Scene_bells theme =
     \<lparr>p_count = 60, p_type = ''cone'',
      p_colorPalette = (if theme = ''ICY'' then [''#C0C0C0'', ''#FFFFFF'']
                      else [''#D4AF37'', ''#C0C0C0'', ''#CD7F32'']),
      p_scaleRange = (25 / 100, 4 / 10), p_weight = 6 / 10,
      p_emissive = False, p_emissiveIntensity = 0, p_geometryScale = Vector3 1 1 1\<rparr>"

subsection \<open>Trunk, Leaves, Ribbon, Star and photo cards: the position line\<close>

definition Trunk_position :: "Vector3 \<Rightarrow> Vector3 \<Rightarrow> real \<Rightarrow> Vector3" where
  "Trunk_position chaos target t = lerpVectors chaos target (easedT t)"

definition Leaves_position :: "Vector3 \<Rightarrow> Vector3 \<Rightarrow> real \<Rightarrow> Vector3" where
  "Leaves_position chaos target t = lerpVectors chaos target (easedT t)"

definition Ribbon_position :: "Vector3 \<Rightarrow> Vector3 \<Rightarrow> real \<Rightarrow> Vector3" where
  "Ribbon_position chaos target t = lerpVectors chaos target (easedT t)"

definition Star_targetPos :: Vector3 where
  "Star_targetPos = Vector3 0 (52 / 10) 0"

definition Star_position :: "Vector3 \<Rightarrow> real \<Rightarrow> Vector3" where
  "Star_position chaosPos t = lerpVectors chaosPos Star_targetPos (easedT t)"

definition PolaroidItem_position :: "Vector3 \<Rightarrow> Vector3 \<Rightarrow> real \<Rightarrow> Vector3" where
  "PolaroidItem_position chaosPos targetPos t = lerpVectors chaosPos targetPos (easedT t)"

subsection \<open>Foliage, Snow and Lights: the \<open>pos\<close> of the vertex shader\<close>

definition Foliage_vertex :: "Vector3 \<Rightarrow> Vector3 \<Rightarrow> real \<Rightarrow> real \<Rightarrow> real \<Rightarrow> Vector3" where
  "Foliage_vertex aChaos aTarget aRandom uTime uProgress =
     (let t = 1 - (1 - uProgress) ^ 3;
          pos = mix aChaos aTarget t
      in Vector3 (vx pos) (vy pos + sin (uTime * (5 / 10) + aRandom * 10) * (1 / 10) * t) (vz pos))"

definition Snow_vertex :: "Vector3 \<Rightarrow> Vector3 \<Rightarrow> real \<Rightarrow> real \<Rightarrow> real \<Rightarrow> Vector3" where
  "Snow_vertex aChaos aTarget aRandom uTime uProgress =
     (let t = 1 - (1 - uProgress) ^ 3;
          pos = mix aChaos aTarget t;
          movementAmp = 1
      in Vector3 (vx pos + sin (uTime * (5 / 10) + aRandom * 10) * (2 / 10) * movementAmp)
                 (vy pos + cos (uTime * (3 / 10) + aRandom * 20) * (2 / 10) * movementAmp)
                 (vz pos + sin (uTime * (4 / 10) + aRandom * 15) * (2 / 10) * movementAmp))"

definition TreeLights_vertex :: "Vector3 \<Rightarrow> Vector3 \<Rightarrow> real \<Rightarrow> Vector3" where
  "TreeLights_vertex aChaos aTarget uProgress =
     (let t = smoothstep 0 1 uProgress;
          ease = 1 - (1 - t) ^ 3
      in mix aChaos aTarget ease)"

section \<open>Photo cards (Polaroids) and the application state\<close>

text \<open>
  What a mounted \<open>PolaroidItem\<close> holds between renders: the two \<open>useMemo(..., [])\<close>
  values, computed when the instance mounts (five draws), and its progress ref.
\<close>

record PolaroidItem_state =
  chaosPos :: Vector3
  rotationOffset :: real
  swaySpeed :: real
  progress :: real

definition PolaroidItem_mount :: "rng \<Rightarrow> PolaroidItem_state \<times> rng" where
  "PolaroidItem_mount g =
     (case randomSpherePoint 14 g of (c, g1) \<Rightarrow>
      case Math_random g1 of (r1, g2) \<Rightarrow>
      case Math_random g2 of (r2, g3) \<Rightarrow>
      (\<lparr>chaosPos = c, rotationOffset = r1 * pi * 2, swaySpeed = 5 / 10 + r2 * (15 / 10),
        progress = 0\<rparr>, g3))"

text \<open>The \<open>useMemo(..., [index, total])\<close> value: a function of the two props alone.\<close>

definition PolaroidItem_targetPos :: "nat \<Rightarrow> nat \<Rightarrow> Vector3" where
  "PolaroidItem_targetPos index total' =
     (let radiusBase = 48 / 10;
          treeHeight = 9;
          heightRatio = 1 - real index / real (max total' 1);
          randomHeightOffset = (sin (real index * (1234 / 100)) + 1) * 1;
          yPos = heightRatio * treeHeight * (8 / 10) + randomHeightOffset;
          rAtHeight = max (5 / 10) (radiusBase * (1 - yPos / treeHeight));
          angle = real index * (8 / 10) + real index * real index * (5 / 100);
          x = rAtHeight * cos angle;
          z = rAtHeight * sin angle
      in Vector3 x (yPos - 5) z)"

text \<open>\<open>Polaroids\<close>: nothing for an empty list, else one child per url with
  \<open>key = url\<close>, \<open>index = i\<close>, \<open>total = urls.length\<close>. A child is (key, index, total).\<close>

definition Polaroids_children :: "string list \<Rightarrow> (string \<times> nat \<times> nat) list" where
  "Polaroids_children urls =
     (if urls = [] then []
      else map (\<lambda>(i, url). (url, i, length urls)) (zip [0 ..< length urls] urls))"

text \<open>
  React's reconciliation of keyed siblings, for keys that are unique (the urls are blob
  urls from \<open>URL.createObjectURL\<close>): a child whose key was mounted before keeps its
  instance, hooks included; a child with a new key mounts; an instance whose key is gone
  unmounts. The mounted instances are a map from key to instance state.
\<close>

fun reconcile ::
  "(string \<rightharpoonup> PolaroidItem_state) \<Rightarrow> (string \<times> nat \<times> nat) list \<Rightarrow> rng
     \<Rightarrow> (string \<rightharpoonup> PolaroidItem_state) \<times> rng" where
  "reconcile old [] g = (Map.empty, g)"
| "reconcile old ((key, index, total') # cs) g =
     (case old key of
        Some st \<Rightarrow> (case reconcile old cs g of (m, g1) \<Rightarrow> (m(key \<mapsto> st), g1))
      | None \<Rightarrow> (case PolaroidItem_mount g of (st, g1) \<Rightarrow>
                  case reconcile old cs g1 of (m, g2) \<Rightarrow> (m(key \<mapsto> st), g2)))"

definition Polaroids_render ::
  "(string \<rightharpoonup> PolaroidItem_state) \<Rightarrow> string list \<Rightarrow> rng \<Rightarrow> (string \<rightharpoonup> PolaroidItem_state)" where
  "Polaroids_render old urls g = fst (reconcile old (Polaroids_children urls) g)"

text \<open>\<open>App\<close>: its state hooks, the mode setter and toggle, and the photo handlers
  (\<open>prev.filter((_, index) => index !== indexToRemove)\<close>).\<close>

record App_state =
  s_mode :: string
  s_theme :: string
  s_photos :: "string list"
  s_isGalleryOpen :: bool

definition App_initial :: App_state where
  "App_initial = \<lparr>s_mode = CHAOS, s_theme = ''CLASSIC'', s_photos = [], s_isGalleryOpen = False\<rparr>"

definition setMode :: "string \<Rightarrow> App_state \<Rightarrow> App_state" where
  "setMode v s = s\<lparr>s_mode := v\<rparr>"

definition toggleMode :: "App_state \<Rightarrow> App_state" where
  "toggleMode s = setMode (if s_mode s = CHAOS then FORMED else CHAOS) s"

definition filter_index :: "nat \<Rightarrow> 'a list \<Rightarrow> 'a list" where
  "filter_index indexToRemove prev =
     map snd (filter (\<lambda>(index, x). index \<noteq> indexToRemove) (zip [0 ..< length prev] prev))"

definition removePhoto :: "nat \<Rightarrow> App_state \<Rightarrow> App_state" where
  "removePhoto indexToRemove s = s\<lparr>s_photos := filter_index indexToRemove (s_photos s)\<rparr>"

definition handleFileUpload :: "string list \<Rightarrow> App_state \<Rightarrow> App_state" where
  "handleFileUpload newPhotos s = s\<lparr>s_photos := s_photos s @ newPhotos\<rparr>"

text \<open>
  What a re-render of a component does to its progress. A ref (\<open>useRef(0)\<close>) keeps its
  value, and Foliage memoises its uniforms on \<open>[color, size]\<close>. TreeLights and Snow pass
  \<open>uniforms={{ uTime: { value: 0 }, uProgress: { value: 0 }, ... }}\<close> inline: every render of
  the component hands the material a fresh uniforms object, so \<open>uProgress\<close> restarts at 0.
\<close>

fun rerender :: "component \<Rightarrow> real \<Rightarrow> real" where
  "rerender TreeLights p = 0"
| "rerender Snow p = 0"
| "rerender Foliage p = p"
| "rerender (Ornaments weight) p = p"
| "rerender Trunk p = p"
| "rerender Leaves p = p"
| "rerender Ribbon p = p"
| "rerender Star p = p"
| "rerender PolaroidItem p = p"

text \<open>
  The running scene: the application state and the progress of every mounted animated
  component. A rendered frame gives each component the current mode and the elapsed
  time. A call of the state setter \<open>setMode\<close> with the value the state already has is
  dropped by React (\<open>useState\<close> compares with \<open>Object.is\<close> and skips the render of the
  component and its children); with a new value \<open>App\<close> renders again, \<open>Scene\<close> and every
  component under it receive the new \<open>mode\<close> prop and render again. \<open>toggleMode\<close> always
  produces a value different from the current one.
\<close>

datatype event = SetMode string | ToggleMode | Frame real

fun step :: "event \<Rightarrow> App_state \<times> (component \<times> real) list \<Rightarrow> App_state \<times> (component \<times> real) list" where
  "step (SetMode v) (s, ps) =
     (if s_mode s = v then (s, ps)
      else (setMode v s, map (\<lambda>(c, p). (c, rerender c p)) ps))"
| "step ToggleMode (s, ps) = (toggleMode s, map (\<lambda>(c, p). (c, rerender c p)) ps)"
| "step (Frame delta) (s, ps) =
     (s, map (\<lambda>(c, p). (c, progress_step c (s_mode s) p delta)) ps)"


section \<open>Facts about the primitives\<close>

lemma planar_norm: "sqrt ((r * cos a) * (r * cos a) + (r * sin a) * (r * sin a)) = \<bar>r\<bar>"
proof -
  have "(r * cos a) * (r * cos a) + (r * sin a) * (r * sin a)
        = (r * r) * (cos a * cos a + sin a * sin a)"
    by (simp only: distrib_left mult_ac)
  then show ?thesis by simp
qed

lemma spherical_norm:
  "sqrt ((r * s * cos a) * (r * s * cos a) + (r * s * sin a) * (r * s * sin a)
         + (r * c) * (r * c)) = \<bar>r\<bar> * sqrt (s * s + c * c)"
proof -
  have "(r * s * cos a) * (r * s * cos a) + (r * s * sin a) * (r * s * sin a) + (r * c) * (r * c)
        = (r * r) * ((s * s) * (cos a * cos a + sin a * sin a) + c * c)"
    by (simp only: distrib_left mult_ac)
  then show ?thesis by (simp add: real_sqrt_mult)
qed

lemma randomSpherePoint_length:
  "length_v (fst (randomSpherePoint radius g)) = \<bar>root 3 (g 2) * radius\<bar>"
proof -
  have two: "Suc (Suc 0) = 2" by simp
  have "sqrt (sin (arccos (2 * g 1 - 1)) * sin (arccos (2 * g 1 - 1))
            + cos (arccos (2 * g 1 - 1)) * cos (arccos (2 * g 1 - 1))) = 1"
    by (simp add: add.commute)
  then show ?thesis
    by (simp add: randomSpherePoint_def Math_random_def Let_def length_v_def spherical_norm two
        abs_mult)
qed

subsection \<open>Damped and fixed-rate progress\<close>

lemma damp_closed_form: "damp x y l d = y + (x - y) * exp (- l * d)"
  by (simp add: damp_def lerp_def algebra_simps)

lemma damp_zero: "damp x y l 0 = x"
  by (simp add: damp_closed_form)

lemma damp_compose: "damp (damp x y l d1) y l d2 = damp x y l (d1 + d2)"
proof -
  have "- l * (d1 + d2) = - l * d1 + - l * d2"
    by (simp add: algebra_simps)
  then have "exp (- l * (d1 + d2)) = exp (- l * d1) * exp (- l * d2)"
    by (simp only: exp_add)
  then show ?thesis
    by (simp add: damp_closed_form algebra_simps)
qed

lemma lerp_closed_form: "lerp x y t = y + (x - y) * (1 - t)"
  by (simp add: lerp_def algebra_simps)

lemma progress_step_damped:
  "damped c \<Longrightarrow> \<exists>l. \<forall>mode p d. progress_step c mode p d = damp p (targetMode mode) l d"
  by (cases c)
     (auto simp: Ornaments_progress_def Trunk_progress_def Leaves_progress_def
        Ribbon_progress_def Star_progress_def PolaroidItem_progress_def Let_def)

lemma progress_step_compose:
  assumes "damped c"
  shows "progress_step c mode (progress_step c mode p d1) d2 = progress_step c mode p (d1 + d2)"
proof -
  from progress_step_damped [OF assms] obtain l where
    "\<And>mode p d. progress_step c mode p d = damp p (targetMode mode) l d" by blast
  then show ?thesis by (simp add: damp_compose)
qed

lemma run_frames_fixed_rate:
  assumes "\<And>p d. progress_step c mode p d = lerp p (targetMode mode) (2 / 100)"
  shows "run_frames c mode p ds = targetMode mode + (p - targetMode mode) * (98 / 100) ^ length ds"
  using assms
proof (induction ds arbitrary: p)
  case Nil
  then show ?case by simp
next
  case (Cons d ds)
  then show ?case by (simp add: lerp_closed_form)
qed

lemma run_frames_damped:
  assumes "\<And>p d. progress_step c mode p d = damp p y l d"
  shows "run_frames c mode p ds = damp p y l (sum_list ds)"
  using assms
proof (induction ds arbitrary: p)
  case Nil
  then show ?case by (simp add: damp_zero)
next
  case (Cons d ds)
  then show ?case by (simp add: damp_compose)
qed

lemma exp_minus_6_small: "exp (- 6 :: real) < 1 / 100"
proof -
  have "(5::real) \<le> exp 2"
    using exp_lower_Taylor_quadratic [of "2::real"] by simp
  then have "(5::real) ^ 3 \<le> exp 2 ^ 3" by (intro power_mono) simp_all
  also have "exp (2::real) ^ 3 = exp 6" by (simp add: exp_of_nat_mult [symmetric])
  finally have "(100::real) < exp 6" by simp
  then have "1 / exp (6::real) < 1 / 100"
    by (intro divide_strict_left_mono) simp_all
  then show ?thesis by (simp add: exp_minus inverse_eq_divide)
qed

subsection \<open>The progress stays in the unit interval\<close>


lemma approach_closed:
  fixes p e y :: real
  assumes "0 < e" "e < 1" "y = 0 \<or> y = 1" "0 \<le> p" "p \<le> 1"
  shows "0 \<le> y + (p - y) * e \<and> y + (p - y) * e \<le> 1"
proof -
  have a: "0 \<le> p * e" using assms by simp
  have b: "p * e \<le> 1 * 1" using assms by (intro mult_mono) simp_all
  have c: "0 \<le> (1 - p) * e" using assms by simp
  have d: "(1 - p) * e \<le> 1 * 1" using assms by (intro mult_mono) simp_all
  from assms(3) show ?thesis
  proof
    assume "y = 0" then show ?thesis using a b by simp
  next
    assume "y = 1"
    moreover have "1 + (p - 1) * e = 1 - (1 - p) * e" by (simp add: algebra_simps)
    ultimately show ?thesis using c d by simp
  qed
qed

lemma approach_open:
  fixes p e y :: real
  assumes "0 < e" "e < 1" "y = 0 \<or> y = 1" "0 < p" "p < 1"
  shows "0 < y + (p - y) * e \<and> y + (p - y) * e < 1"
proof -
  have a: "0 < p * e" using assms by simp
  have "p * e < 1 * 1" using assms by (intro mult_strict_mono) simp_all
  then have b: "p * e < 1" by simp
  have c: "0 < (1 - p) * e" using assms by simp
  have "(1 - p) * e < 1 * 1" using assms by (intro mult_strict_mono) simp_all
  then have d: "(1 - p) * e < 1" by simp
  from assms(3) show ?thesis
  proof
    assume "y = 0" then show ?thesis using a b by simp
  next
    assume "y = 1"
    moreover have "1 + (p - 1) * e = 1 - (1 - p) * e" by (simp add: algebra_simps)
    ultimately show ?thesis using c d by simp
  qed
qed

lemma targetMode_cases: "targetMode mode = 0 \<or> targetMode mode = 1"
  by (simp add: targetMode_def)

lemma progress_step_approach:
  assumes "c \<noteq> TreeLights \<or> delta < 1" and "\<forall>w. c = Ornaments w \<longrightarrow> 0 < w" and "0 < delta"
  shows "\<exists>e. 0 < e \<and> e < 1 \<and>
           (\<forall>p. progress_step c mode p delta = targetMode mode + (p - targetMode mode) * e)"
proof (cases c)
  case (Ornaments w)
  then have "0 < w" using assms(2) by simp
  then have "0 < exp (- (1 / w) * delta) \<and> exp (- (1 / w) * delta) < 1"
    using assms(3) by simp
  then show ?thesis
    unfolding Ornaments by (intro exI [of _ "exp (- (1 / w) * delta)"])
      (simp add: Ornaments_progress_def damp_closed_form)
next
  case TreeLights
  then have "0 < 1 - delta \<and> 1 - delta < 1" using assms(1,3) by simp
  then show ?thesis
    unfolding TreeLights by (intro exI [of _ "1 - delta"])
      (simp add: TreeLights_progress_def lerp_closed_form)
next
  case Foliage
  show ?thesis
    unfolding Foliage by (intro exI [of _ "98 / 100"])
      (simp add: Foliage_progress_def lerp_closed_form)
next
  case Snow
  show ?thesis
    unfolding Snow by (intro exI [of _ "98 / 100"])
      (simp add: Snow_progress_def lerp_closed_form)
next
  case Trunk
  have "0 < exp (- (12 / 10) * delta) \<and> exp (- (12 / 10) * delta) < 1" using assms(3) by simp
  then show ?thesis
    unfolding Trunk by (intro exI [of _ "exp (- (12 / 10) * delta)"])
      (simp add: Trunk_progress_def damp_closed_form)
next
  case Leaves
  have "0 < exp (- (15 / 10) * delta) \<and> exp (- (15 / 10) * delta) < 1" using assms(3) by simp
  then show ?thesis
    unfolding Leaves by (intro exI [of _ "exp (- (15 / 10) * delta)"])
      (simp add: Leaves_progress_def damp_closed_form)
next
  case Ribbon
  have "0 < exp (- 1 * delta) \<and> exp (- 1 * delta) < 1" using assms(3) by simp
  then show ?thesis
    unfolding Ribbon by (intro exI [of _ "exp (- 1 * delta)"])
      (simp add: Ribbon_progress_def damp_closed_form)
next
  case Star
  have "0 < exp (- (8 / 10) * delta) \<and> exp (- (8 / 10) * delta) < 1" using assms(3) by simp
  then show ?thesis
    unfolding Star by (intro exI [of _ "exp (- (8 / 10) * delta)"])
      (simp add: Star_progress_def damp_closed_form)
next
  case PolaroidItem
  have "0 < exp (- (12 / 10) * delta) \<and> exp (- (12 / 10) * delta) < 1" using assms(3) by simp
  then show ?thesis
    unfolding PolaroidItem by (intro exI [of _ "exp (- (12 / 10) * delta)"])
      (simp add: PolaroidItem_progress_def damp_closed_form)
qed

lemma progress_step_unit_interval:
  assumes "c \<noteq> TreeLights \<or> delta < 1" and "\<forall>w. c = Ornaments w \<longrightarrow> 0 < w" and "0 < delta"
  shows "(0 \<le> p \<and> p \<le> 1 \<longrightarrow>
            0 \<le> progress_step c mode p delta \<and> progress_step c mode p delta \<le> 1)
       \<and> (0 < p \<and> p < 1 \<longrightarrow>
            0 < progress_step c mode p delta \<and> progress_step c mode p delta < 1)"
proof -
  from progress_step_approach [OF assms] obtain e where e: "0 < e" "e < 1"
    and st: "\<And>p. progress_step c mode p delta = targetMode mode + (p - targetMode mode) * e"
    by blast
  show ?thesis
    using approach_closed [OF e targetMode_cases, of p mode]
      approach_open [OF e targetMode_cases, of p mode]
    by (simp add: st)
qed


subsection \<open>Endpoints of the interpolation, and runs of events\<close>


lemma easedT_0: "easedT 0 = 0" and easedT_1: "easedT 1 = 1"
  by (simp_all add: easedT_def)

lemma lerpVectors_0: "lerpVectors a b 0 = a" and lerpVectors_1: "lerpVectors a b 1 = b"
  by (cases a; cases b; simp add: lerpVectors_def)+

lemma mix_0: "mix a b 0 = a" and mix_1: "mix a b 1 = b"
  by (cases a; cases b; simp add: mix_def)+

lemma smoothstep_0: "smoothstep 0 1 0 = 0" and smoothstep_1: "smoothstep 0 1 1 = 1"
  by (simp_all add: smoothstep_def clamp_def)

lemma mix_lerpVectors: "mix a b t = lerpVectors a b t"
  by (simp add: mix_def lerpVectors_def algebra_simps)






lemma mode_change_restarts_lights_and_snow:
  "snd (step (SetMode CHAOS) (s\<lparr>s_mode := FORMED\<rparr>, [(TreeLights, p), (Snow, q), (Foliage, r)]))
   = [(TreeLights, 0), (Snow, 0), (Foliage, r)]"
  by (simp add: CHAOS_def FORMED_def)



subsection \<open>Photo cards: removal, keys and slots\<close>


lemma filter_index_eq: "filter_index k xs = take k xs @ drop (Suc k) xs"
proof (induction xs arbitrary: k rule: rev_induct)
  case Nil
  then show ?case by (simp add: filter_index_def)
next
  case (snoc x xs)
  then show ?case
    by (cases "k < length xs") (auto simp: filter_index_def)
qed

lemma filter_index_abc: "filter_index 1 [a, b, c] = [a, c]"
  by (simp add: filter_index_eq)

lemma Polaroids_children_3:
  "Polaroids_children [a, b, c] = [(a, 0, 3), (b, 1, 3), (c, 2, 3)]"
  by (simp add: Polaroids_children_def upt_rec)

lemma Polaroids_children_2: "Polaroids_children [a, c] = [(a, 0, 2), (c, 1, 2)]"
  by (simp add: Polaroids_children_def upt_rec)

lemma targetPos_index_0: "PolaroidItem_targetPos 0 n = Vector3 (5 / 10) (32 / 10) 0"
  by (simp add: PolaroidItem_targetPos_def Let_def)

lemma targetPos_1_2_neq_2_3: "PolaroidItem_targetPos 1 2 \<noteq> PolaroidItem_targetPos 2 3"
proof
  assume eq: "PolaroidItem_targetPos 1 2 = PolaroidItem_targetPos 2 3"
  define r1 :: real where
    "r1 = max (5 / 10) (48 / 10 * (1 - ((1 - 1 / 2) * 9 * (8 / 10) + (sin (1234 / 100) + 1) * 1) / 9))"
  define r2 :: real where
    "r2 = max (5 / 10) (48 / 10 * (1 - ((1 - 2 / 3) * 9 * (8 / 10) + (sin (2 * (1234 / 100)) + 1) * 1) / 9))"
  have p1: "vx (PolaroidItem_targetPos 1 2) = r1 * cos (85 / 100)"
           "vz (PolaroidItem_targetPos 1 2) = r1 * sin (85 / 100)"
    by (simp_all add: PolaroidItem_targetPos_def Let_def r1_def)
  have p2: "vx (PolaroidItem_targetPos 2 3) = r2 * cos (18 / 10)"
           "vz (PolaroidItem_targetPos 2 3) = r2 * sin (18 / 10)"
    by (simp_all add: PolaroidItem_targetPos_def Let_def r2_def)
  have x: "r1 * cos (85 / 100) = r2 * cos (18 / 10)" and z: "r1 * sin (85 / 100) = r2 * sin (18 / 10)"
    using eq p1 p2 by simp_all
  have r1: "0 < r1" and r2: "0 < r2" by (simp_all add: r1_def r2_def)
  have "r1 * r2 * sin (18 / 10 - 85 / 100)
        = (r2 * sin (18 / 10)) * (r1 * cos (85 / 100)) - (r2 * cos (18 / 10)) * (r1 * sin (85 / 100))"
    by (simp only: sin_diff) (simp add: algebra_simps)
  also have "\<dots> = (r1 * sin (85 / 100)) * (r1 * cos (85 / 100)) - (r1 * cos (85 / 100)) * (r1 * sin (85 / 100))"
    by (simp only: x z)
  also have "\<dots> = 0" by simp
  finally have "sin (18 / 10 - 85 / 100 :: real) = 0" using r1 r2 by simp
  moreover have "0 < sin (18 / 10 - 85 / 100 :: real)"
    by (intro sin_gt_zero_02) simp_all
  ultimately show False by simp
qed

lemma reconcile_keeps:
  "key \<in> fst ` set cs \<Longrightarrow> old key = Some st \<Longrightarrow> fst (reconcile old cs g) key = Some st"
proof (induction cs arbitrary: g)
  case Nil
  then show ?case by simp
next
  case (Cons c cs)
  obtain k' i n where c: "c = (k', i, n)" by (cases c)
  show ?case
  proof (cases "k' = key")
    case True
    with Cons.prems c show ?thesis by (simp add: split_def)
  next
    case False
    with Cons.prems c have "key \<in> fst ` set cs" by auto
    with Cons.IH Cons.prems(2) have "\<And>g. fst (reconcile old cs g) key = Some st" by blast
    with False c show ?thesis by (simp add: split_def split: option.splits)
  qed
qed

lemma reconcile_mounts:
  "key \<in> fst ` set cs \<Longrightarrow> fst (reconcile old cs g) key \<noteq> None"
proof (induction cs arbitrary: g)
  case Nil
  then show ?case by simp
next
  case (Cons c cs)
  obtain k' i n where c: "c = (k', i, n)" by (cases c)
  show ?case
  proof (cases "k' = key")
    case True
    with c show ?thesis by (simp add: split_def split: option.splits)
  next
    case False
    with Cons.prems c have "key \<in> fst ` set cs" by auto
    with Cons.IH have "\<And>g. fst (reconcile old cs g) key \<noteq> None" by blast
    with False c show ?thesis by (simp add: split_def split: option.splits)
  qed
qed

lemma Polaroids_children_keys: "fst ` set (Polaroids_children urls) = set urls"
proof (cases "urls = []")
  case True
  then show ?thesis by (simp add: Polaroids_children_def)
next
  case False
  have "map fst (Polaroids_children urls) = map snd (zip [0 ..< length urls] urls)"
    using False by (simp add: Polaroids_children_def split_def comp_def)
  also have "\<dots> = urls" by (simp add: map_snd_zip)
  finally have "set (map fst (Polaroids_children urls)) = set urls" by simp
  then show ?thesis by simp
qed

lemma survivor_in_filter_index:
  assumes "j < length urls" and "j \<noteq> k"
  shows "urls ! j \<in> set (filter_index k urls)"
proof (cases "j < k")
  case True
  then have "urls ! j = take k urls ! j" by simp
  moreover have "j < length (take k urls)" using True assms(1) by simp
  ultimately have "urls ! j \<in> set (take k urls)" by (metis nth_mem)
  then show ?thesis by (simp add: filter_index_eq)
next
  case False
  then have "Suc k \<le> j" using assms(2) by simp
  then have "drop (Suc k) urls ! (j - Suc k) = urls ! j"
    and "j - Suc k < length (drop (Suc k) urls)"
    using assms(1) by simp_all
  then have "urls ! j \<in> set (drop (Suc k) urls)" by (metis nth_mem)
  then show ?thesis by (simp add: filter_index_eq)
qed


subsection \<open>Ornament instances\<close>


lemma Math_random_fst: "fst (Math_random g) = g 0"
  and Math_random_snd: "snd (Math_random g) = (\<lambda>n. g (Suc n))"
  by (simp_all add: Math_random_def)

lemma randomSpherePoint_rng: "snd (randomSpherePoint radius g) = (\<lambda>n. g (n + 3))"
  by (simp add: randomSpherePoint_def Math_random_def Let_def eval_nat_numeral)

lemma getTreeSurfacePosition_rng:
  "snd (getTreeSurfacePosition radiusBase height yOffset g) = (\<lambda>n. g (n + 2))"
  by (simp add: getTreeSurfacePosition_def Math_random_def Let_def eval_nat_numeral)

lemma Ornaments_instance_rng: "snd (Ornaments_instance props g) = (\<lambda>n. g (n + 10))"
  by (simp add: Ornaments_instance_def split_def Let_def Math_random_snd
      randomSpherePoint_rng getTreeSurfacePosition_rng eval_nat_numeral)

lemma Ornaments_instance_scale:
  "d_scale (fst (Ornaments_instance props g))
   = g 6 * (snd (p_scaleRange props) - fst (p_scaleRange props)) + fst (p_scaleRange props)"
  by (simp add: Ornaments_instance_def split_def Let_def Math_random_snd Math_random_fst
      randomSpherePoint_rng getTreeSurfacePosition_rng eval_nat_numeral)

lemma uniform_draws_shift: "uniform_draws g \<Longrightarrow> uniform_draws (\<lambda>n. g (n + k))"
  by (simp add: uniform_draws_def)

lemma scale_draw_in_range:
  fixes r lo hi :: real
  assumes "0 \<le> r" "r < 1" "lo < hi"
  shows "lo \<le> r * (hi - lo) + lo \<and> r * (hi - lo) + lo < hi"
proof -
  have "0 \<le> r * (hi - lo)" using assms by simp
  moreover have "r * (hi - lo) < 1 * (hi - lo)"
    using assms by (intro mult_strict_right_mono) simp_all
  ultimately show ?thesis by simp
qed

lemma Ornaments_data_from_length: "length (fst (Ornaments_data_from n props g)) = n"
  by (induction n arbitrary: g) (simp_all add: split_def)

lemma Ornaments_data_from_hd:
  "0 < n \<Longrightarrow> hd (fst (Ornaments_data_from n props g)) = fst (Ornaments_instance props g)"
  by (cases n) (simp_all add: split_def)

lemma Ornaments_data_from_scale:
  assumes "uniform_draws g" and "fst (p_scaleRange props) < snd (p_scaleRange props)"
    and "d \<in> set (fst (Ornaments_data_from n props g))"
  shows "fst (p_scaleRange props) \<le> d_scale d \<and> d_scale d < snd (p_scaleRange props)"
  using assms(1,3)
proof (induction n arbitrary: g)
  case 0
  then show ?case by simp
next
  case (Suc n)
  from Suc.prems(2) consider "d = fst (Ornaments_instance props g)"
    | "d \<in> set (fst (Ornaments_data_from n props (snd (Ornaments_instance props g))))"
    by (auto simp: split_def)
  then show ?case
  proof cases
    case 1
    have "0 \<le> g 6" "g 6 < 1" using Suc.prems(1) by (simp_all add: uniform_draws_def)
    from scale_draw_in_range [OF this assms(2)] show ?thesis
      by (simp add: 1 Ornaments_instance_scale)
  next
    case 2
    have "uniform_draws (snd (Ornaments_instance props g))"
      using Suc.prems(1) by (simp add: Ornaments_instance_rng uniform_draws_shift)
    from Suc.IH [OF this 2] show ?thesis .
  qed
qed

lemma easedT_unit: "0 \<le> t \<Longrightarrow> t \<le> 1 \<Longrightarrow> 0 \<le> easedT t \<and> easedT t \<le> 1"
proof -
  assume "0 \<le> t" "t \<le> 1"
  then have "0 \<le> (1 - t) ^ 3" and "(1 - t) ^ 3 \<le> 1"
    by (simp_all add: power_le_one)
  then show ?thesis by (simp add: easedT_def)
qed

lemma Scene_bells_scaleMult: "Ornaments_scaleMult (Scene_bells theme) t time d = 1"
  by (simp add: Ornaments_scaleMult_def Scene_bells_def)

lemma Scene_bells_scale:
  "t_scale (Ornaments_transform (Scene_bells theme) t time d)
   = Vector3 (d_scale d * (8 / 10 + 2 / 10 * easedT t))
             (d_scale d * (8 / 10 + 2 / 10 * easedT t))
             (d_scale d * (8 / 10 + 2 / 10 * easedT t))"
  by (simp add: Ornaments_transform_def Let_def Scene_bells_scaleMult) (simp add: Scene_bells_def)

section \<open>Claims\<close>

text \<open>
  C8. For every radius \<open>> 0\<close> and all values of the three uniform draws in \<open>[0, 1)\<close>, the
  point returned by \<open>randomSpherePoint\<close> has Euclidean magnitude at most the radius.
  Only the third draw (the one under the cube root) matters for the magnitude.
\<close>

theorem C8_randomSpherePoint_within_radius:
  assumes "0 < radius" and "0 \<le> g 0" "g 0 < 1" and "0 \<le> g 1" "g 1 < 1"
    and "0 \<le> g 2" "g 2 < 1"
  shows "length_v (fst (randomSpherePoint radius g)) \<le> radius"
proof -
  have r0: "0 \<le> root 3 (g 2)" using assms by (simp add: real_root_ge_zero)
  have r1: "root 3 (g 2) \<le> 1" using assms by simp
  have "\<bar>root 3 (g 2) * radius\<bar> = root 3 (g 2) * radius"
    using r0 assms(1) by simp
  also have "\<dots> \<le> 1 * radius"
    using r1 assms(1) by (intro mult_right_mono) simp_all
  finally show ?thesis by (simp add: randomSpherePoint_length)
qed

theorem C8_witness:
  "(0::real) < 2 \<and> length_v (fst (randomSpherePoint 2 (const_draws (1 / 8)))) \<le> 2"
  using C8_randomSpherePoint_within_radius [where radius = 2 and g = "const_draws (1 / 8)"]
  by (simp add: const_draws_def)

text \<open>
  C9. For every base radius \<open>> 0\<close>, height \<open>> 0\<close> and vertical offset, and every value of
  the draws in \<open>[0, 1)\<close>, the point returned by \<open>getTreeSurfacePosition\<close> has its \<open>y\<close>
  in \<open>[yOffset, yOffset + height]\<close>, and its horizontal distance from the axis is
  \<open>radiusBase * (1 - (y - yOffset) / height)\<close>; so the distance is at most
  \<open>radiusBase / height\<close> times the remaining height below the apex, and falls under any
  \<open>\<epsilon> > 0\<close> once \<open>y\<close> is within \<open>\<epsilon> * height / radiusBase\<close> of \<open>yOffset + height\<close>.
  Only the first draw (the height fraction) is constrained; the azimuth draw is free.
\<close>

theorem C9_getTreeSurfacePosition_on_cone:
  fixes radiusBase height yOffset :: real and g :: rng
  assumes "0 < radiusBase" and "0 < height" and "0 \<le> g 0" and "g 0 < 1"
  defines "p \<equiv> fst (getTreeSurfacePosition radiusBase height yOffset g)"
  defines "hdist \<equiv> sqrt (vx p * vx p + vz p * vz p)"
  shows "yOffset \<le> vy p \<and> vy p \<le> yOffset + height
       \<and> hdist = radiusBase * (1 - (vy p - yOffset) / height)
       \<and> hdist = radiusBase / height * (yOffset + height - vy p)
       \<and> (\<forall>eps. 0 < eps \<longrightarrow> yOffset + height - vy p < eps * height / radiusBase
              \<longrightarrow> hdist < eps)"
proof -
  let ?s = "sqrt (g 0)"
  have s0: "0 \<le> ?s" and s1: "?s \<le> 1" using assms(3,4) by simp_all
  have py: "vy p = height * (1 - ?s) + yOffset"
    by (simp add: p_def getTreeSurfacePosition_def Math_random_def Let_def)
  have "hdist = \<bar>radiusBase * ?s\<bar>"
    by (simp add: hdist_def p_def getTreeSurfacePosition_def Math_random_def Let_def planar_norm)
  then have d: "hdist = radiusBase * ?s" using assms(1) s0 by (simp add: abs_mult)
  have "0 \<le> height * (1 - ?s)" using assms(2) s1 by simp
  then have lo: "yOffset \<le> vy p" by (simp add: py)
  have "height * (1 - ?s) \<le> height * 1"
    using assms(2) s0 by (intro mult_left_mono) simp_all
  then have hi: "vy p \<le> yOffset + height" by (simp add: py)
  have f1: "hdist = radiusBase * (1 - (vy p - yOffset) / height)"
    using assms(2) by (simp add: d py)
  have f2: "hdist = radiusBase / height * (yOffset + height - vy p)"
    using assms(2) by (simp add: d py algebra_simps)
  have f3: "hdist < eps"
    if "0 < eps" and near: "yOffset + height - vy p < eps * height / radiusBase" for eps
  proof -
    have "radiusBase / height * (yOffset + height - vy p)
          < radiusBase / height * (eps * height / radiusBase)"
      using near assms(1,2) by (intro mult_strict_left_mono) simp_all
    also have "\<dots> = eps" using assms(1,2) by simp
    finally show ?thesis by (simp add: f2)
  qed
  from lo hi f1 f2 f3 show ?thesis by blast
qed

theorem C9_witness:
  "(0::real) < 4 \<and> (0::real) < 9 \<and> (0::real) \<le> 1 / 4 \<and> (1::real) / 4 < 1 \<and>
   vy (fst (getTreeSurfacePosition 4 9 (-5) (const_draws (1 / 4)))) = - 1 / 2 \<and>
   -5 \<le> vy (fst (getTreeSurfacePosition 4 9 (-5) (const_draws (1 / 4)))) \<and>
   vy (fst (getTreeSurfacePosition 4 9 (-5) (const_draws (1 / 4)))) \<le> -5 + 9 \<and>
   sqrt (vx (fst (getTreeSurfacePosition 4 9 (-5) (const_draws (1 / 4))))
           * vx (fst (getTreeSurfacePosition 4 9 (-5) (const_draws (1 / 4))))
       + vz (fst (getTreeSurfacePosition 4 9 (-5) (const_draws (1 / 4))))
           * vz (fst (getTreeSurfacePosition 4 9 (-5) (const_draws (1 / 4))))) < 3"
proof -
  have y: "vy (fst (getTreeSurfacePosition 4 9 (-5) (const_draws (1 / 4)))) = - 1 / 2"
    by (simp add: getTreeSurfacePosition_def Math_random_def Let_def real_sqrt_divide
        const_draws_def)
  have near: "- 5 + 9 - vy (fst (getTreeSurfacePosition 4 9 (-5) (const_draws (1 / 4)))) < 3 * 9 / (4::real)"
    by (simp add: y)
  from C9_getTreeSurfacePosition_on_cone
         [where radiusBase = 4 and height = 9 and yOffset = "-5" and g = "const_draws (1 / 4)"] near y
  show ?thesis by (simp add: const_draws_def)
qed

text \<open>
  C2, as stated, fails: Foliage (and Snow) move the progress by a fixed fraction per
  rendered frame whatever the elapsed time, so two frames of 1/60 s and a single update
  for 1/30 s give different values.
\<close>

theorem C2_counterexample:
  "progress_step Foliage FORMED (progress_step Foliage FORMED 0 (1 / 60)) (1 / 60)
     \<noteq> progress_step Foliage FORMED 0 (1 / 60 + 1 / 60)"
  by (simp add: Foliage_progress_def lerp_def targetMode_def)

text \<open>
  C2, amended. For every component that advances its progress with \<open>damp\<close> (Ornaments
  with a nonzero weight, Trunk, Leaves, Ribbon, Star, photo cards), updating over \<open>d1\<close>
  and then over \<open>d2\<close> with the mode held gives the same progress as one update over
  \<open>d1 + d2\<close>. Foliage and Snow instead close 2% of the remaining distance on every
  rendered frame: after a run of frames their progress depends on the number of frames
  only, not on the elapsed times.
\<close>

theorem C2_damped_step_composes:
  "(damped c \<and> (\<forall>w. c = Ornaments w \<longrightarrow> w \<noteq> 0) \<longrightarrow>
      progress_step c mode (progress_step c mode p d1) d2 = progress_step c mode p (d1 + d2))
   \<and> run_frames Foliage mode p ds
        = targetMode mode + (p - targetMode mode) * (98 / 100) ^ length ds
   \<and> run_frames Snow mode p ds
        = targetMode mode + (p - targetMode mode) * (98 / 100) ^ length ds"
  by (simp add: progress_step_compose run_frames_fixed_rate Foliage_progress_def
      Snow_progress_def)

theorem C2_witness:
  "damped (Ornaments (6 / 10)) \<and>
   progress_step (Ornaments (6 / 10)) FORMED (progress_step (Ornaments (6 / 10)) FORMED 0 1) 2
     = progress_step (Ornaments (6 / 10)) FORMED 0 (1 + 2)"
  using C2_damped_step_composes
    [where c = "Ornaments (6 / 10)" and mode = FORMED and p = 0 and ?d1.0 = 1 and ?d2.0 = 2]
  by simp

text \<open>
  C7. A component with damping constant 1.2 (Trunk, photo cards) that starts at progress 0
  and is updated with mode FORMED over frames whose elapsed times add up to 5 seconds,
  however the 5 seconds are divided, ends with progress above 0.99 (it is
  \<open>1 - exp (-6)\<close>).
\<close>

theorem C7_five_seconds_exceeds_099:
  assumes "sum_list ds = 5"
  shows "run_frames Trunk FORMED initial_progress ds > 99 / 100
       \<and> run_frames PolaroidItem FORMED initial_progress ds > 99 / 100"
proof -
  have "run_frames Trunk FORMED initial_progress ds = damp 0 1 (12 / 10) 5"
    using run_frames_damped [of Trunk FORMED 1 "12 / 10" initial_progress ds] assms
    by (simp add: Trunk_progress_def targetMode_def initial_progress_def)
  moreover have "run_frames PolaroidItem FORMED initial_progress ds = damp 0 1 (12 / 10) 5"
    using run_frames_damped [of PolaroidItem FORMED 1 "12 / 10" initial_progress ds] assms
    by (simp add: PolaroidItem_progress_def targetMode_def initial_progress_def)
  moreover have "damp 0 1 (12 / 10) 5 > 99 / 100"
    using exp_minus_6_small by (simp add: damp_closed_form)
  ultimately show ?thesis by simp
qed

theorem C7_witness:
  "sum_list [1, 1, 1, 1, 1 :: real] = 5
   \<and> run_frames Trunk FORMED initial_progress [1, 1, 1, 1, 1] > 99 / 100"
  using C7_five_seconds_exceeds_099 [of "[1, 1, 1, 1, 1]"] by simp

text \<open>
  C1, as stated, fails: an ornament at progress 1 is not at its target. With phase 0 and
  clock time \<open>pi / 4\<close> the wobble term is \<open>sin (pi / 2) * 0.05\<close>, so the instance whose
  target is \<open>(2.25, -0.25, 0)\<close> is rendered at \<open>(2.25, -0.2, 0)\<close>.
\<close>

theorem C1_counterexample:
  "t_position (Ornaments_transform (Scene_bells ''CLASSIC'') 1 (pi / 4)
      \<lparr>d_chaos = Vector3 0 0 0, d_target = Vector3 (9 / 4) (- 1 / 4) 0,
       d_color = Some ''#D4AF37'', d_scale = 1 / 4, d_phase = 0, d_rotSpeed = 0,
       d_wobbleSpeed = 1\<rparr>)
   \<noteq> Vector3 (9 / 4) (- 1 / 4) 0"
  by (simp add: Ornaments_transform_def Let_def easedT_1 lerpVectors_1)

text \<open>
  C1, amended. The ease \<open>1 - (1 - t)^3\<close> is 0 at 0 and 1 at 1. At every progress:
  Trunk, Leaves, Ribbon, Star and photo cards render at \<open>lerp(chaos, target,
  ease(progress))\<close>; Lights at \<open>lerp(chaos, target, ease(smoothstep(0, 1, progress)))\<close>;
  Ornaments at \<open>lerp(chaos, target, ease(progress))\<close> plus, whenever progress \<open>> 0.8\<close>, the
  vertical wobble \<open>0.05 * sin (2 * time + phase)\<close>; Foliage at \<open>lerp(chaos, target,
  ease(progress))\<close> plus the vertical offset \<open>0.1 * sin (0.5 * time + 10 * random) *
  ease(progress)\<close>; Snow at \<open>lerp(chaos, target, ease(progress))\<close> plus a drift of amplitude
  0.2 on each axis that does not depend on the progress. Hence Trunk, Leaves, Ribbon, Star,
  photo cards and Lights are exactly at the chaos position at progress 0 and exactly at
  the target at progress 1; Ornaments and Foliage are exactly at the chaos position at
  progress 0 and at the target plus their vertical offset at progress 1; Snow is off by
  its drift at both endpoints.
\<close>

theorem C1_endpoints:
  "easedT t = 1 - (1 - t) ^ 3 \<and> easedT 0 = 0 \<and> easedT 1 = 1
   \<and> Trunk_position chaos target t = lerpVectors chaos target (easedT t)
   \<and> Leaves_position chaos target t = lerpVectors chaos target (easedT t)
   \<and> Ribbon_position chaos target t = lerpVectors chaos target (easedT t)
   \<and> Star_position chaos t = lerpVectors chaos Star_targetPos (easedT t)
   \<and> PolaroidItem_position chaos target t = lerpVectors chaos target (easedT t)
   \<and> TreeLights_vertex chaos target t = lerpVectors chaos target (easedT (smoothstep 0 1 t))
   \<and> t_position (Ornaments_transform props t time d)
       = add_v (lerpVectors (d_chaos d) (d_target d) (easedT t))
               (Vector3 0 (if t > 8 / 10 then sin (time * 2 + d_phase d) * (5 / 100) else 0) 0)
   \<and> Foliage_vertex chaos target aRandom uTime t
       = add_v (lerpVectors chaos target (easedT t))
               (Vector3 0 (sin (uTime * (5 / 10) + aRandom * 10) * (1 / 10) * easedT t) 0)
   \<and> Snow_vertex chaos target aRandom uTime t
       = add_v (lerpVectors chaos target (easedT t))
               (Vector3 (sin (uTime * (5 / 10) + aRandom * 10) * (2 / 10))
                        (cos (uTime * (3 / 10) + aRandom * 20) * (2 / 10))
                        (sin (uTime * (4 / 10) + aRandom * 15) * (2 / 10)))
   \<and> t_position (Ornaments_transform props 0 time d) = d_chaos d
   \<and> t_position (Ornaments_transform props 1 time d)
       = Vector3 (vx (d_target d)) (vy (d_target d) + sin (time * 2 + d_phase d) * (5 / 100))
                 (vz (d_target d))
   \<and> Trunk_position chaos target 0 = chaos \<and> Trunk_position chaos target 1 = target
   \<and> Leaves_position chaos target 0 = chaos \<and> Leaves_position chaos target 1 = target
   \<and> Ribbon_position chaos target 0 = chaos \<and> Ribbon_position chaos target 1 = target
   \<and> Star_position chaos 0 = chaos \<and> Star_position chaos 1 = Star_targetPos
   \<and> PolaroidItem_position chaos target 0 = chaos \<and> PolaroidItem_position chaos target 1 = target
   \<and> TreeLights_vertex chaos target 0 = chaos \<and> TreeLights_vertex chaos target 1 = target
   \<and> Foliage_vertex chaos target aRandom uTime 0 = chaos
   \<and> Foliage_vertex chaos target aRandom uTime 1
       = Vector3 (vx target) (vy target + sin (uTime * (5 / 10) + aRandom * 10) * (1 / 10))
                 (vz target)
   \<and> Snow_vertex chaos target aRandom uTime 0
       = Vector3 (vx chaos + sin (uTime * (5 / 10) + aRandom * 10) * (2 / 10))
                 (vy chaos + cos (uTime * (3 / 10) + aRandom * 20) * (2 / 10))
                 (vz chaos + sin (uTime * (4 / 10) + aRandom * 15) * (2 / 10))
   \<and> Snow_vertex chaos target aRandom uTime 1
       = Vector3 (vx target + sin (uTime * (5 / 10) + aRandom * 10) * (2 / 10))
                 (vy target + cos (uTime * (3 / 10) + aRandom * 20) * (2 / 10))
                 (vz target + sin (uTime * (4 / 10) + aRandom * 15) * (2 / 10))"
proof -
  have mid: "easedT t = 1 - (1 - t) ^ 3"
    "Trunk_position chaos target t = lerpVectors chaos target (easedT t)"
    "Leaves_position chaos target t = lerpVectors chaos target (easedT t)"
    "Ribbon_position chaos target t = lerpVectors chaos target (easedT t)"
    "Star_position chaos t = lerpVectors chaos Star_targetPos (easedT t)"
    "PolaroidItem_position chaos target t = lerpVectors chaos target (easedT t)"
    by (simp_all add: easedT_def Trunk_position_def Leaves_position_def Ribbon_position_def
        Star_position_def PolaroidItem_position_def)
  have gen_lights:
    "TreeLights_vertex chaos target t = lerpVectors chaos target (easedT (smoothstep 0 1 t))"
    by (simp add: TreeLights_vertex_def Let_def mix_lerpVectors easedT_def)
  have gen_orn: "t_position (Ornaments_transform props t time d)
       = add_v (lerpVectors (d_chaos d) (d_target d) (easedT t))
               (Vector3 0 (if t > 8 / 10 then sin (time * 2 + d_phase d) * (5 / 100) else 0) 0)"
    by (simp add: Ornaments_transform_def Let_def add_v_def)
  have gen_fol: "Foliage_vertex chaos target aRandom uTime t
       = add_v (lerpVectors chaos target (easedT t))
               (Vector3 0 (sin (uTime * (5 / 10) + aRandom * 10) * (1 / 10) * easedT t) 0)"
    by (simp add: Foliage_vertex_def Let_def add_v_def mix_lerpVectors easedT_def)
  have gen_snow: "Snow_vertex chaos target aRandom uTime t
       = add_v (lerpVectors chaos target (easedT t))
               (Vector3 (sin (uTime * (5 / 10) + aRandom * 10) * (2 / 10))
                        (cos (uTime * (3 / 10) + aRandom * 20) * (2 / 10))
                        (sin (uTime * (4 / 10) + aRandom * 15) * (2 / 10)))"
    by (simp add: Snow_vertex_def Let_def add_v_def mix_lerpVectors easedT_def)
  have orn: "t_position (Ornaments_transform props 0 time d) = d_chaos d"
    "t_position (Ornaments_transform props 1 time d)
       = Vector3 (vx (d_target d)) (vy (d_target d) + sin (time * 2 + d_phase d) * (5 / 100))
                 (vz (d_target d))"
    by (simp_all add: Ornaments_transform_def Let_def easedT_0 easedT_1 lerpVectors_0 lerpVectors_1)
  have inst: "Trunk_position chaos target 0 = chaos" "Trunk_position chaos target 1 = target"
    "Leaves_position chaos target 0 = chaos" "Leaves_position chaos target 1 = target"
    "Ribbon_position chaos target 0 = chaos" "Ribbon_position chaos target 1 = target"
    "Star_position chaos 0 = chaos" "Star_position chaos 1 = Star_targetPos"
    "PolaroidItem_position chaos target 0 = chaos" "PolaroidItem_position chaos target 1 = target"
    by (simp_all add: Trunk_position_def Leaves_position_def Ribbon_position_def Star_position_def
        PolaroidItem_position_def easedT_0 easedT_1 lerpVectors_0 lerpVectors_1)
  have lights: "TreeLights_vertex chaos target 0 = chaos" "TreeLights_vertex chaos target 1 = target"
    by (simp_all add: TreeLights_vertex_def Let_def smoothstep_0 smoothstep_1 mix_0 mix_1)
  have fol: "Foliage_vertex chaos target aRandom uTime 0 = chaos"
    "Foliage_vertex chaos target aRandom uTime 1
       = Vector3 (vx target) (vy target + sin (uTime * (5 / 10) + aRandom * 10) * (1 / 10))
                 (vz target)"
    by (simp_all add: Foliage_vertex_def Let_def mix_0 mix_1)
  have snow: "Snow_vertex chaos target aRandom uTime 0
       = Vector3 (vx chaos + sin (uTime * (5 / 10) + aRandom * 10) * (2 / 10))
                 (vy chaos + cos (uTime * (3 / 10) + aRandom * 20) * (2 / 10))
                 (vz chaos + sin (uTime * (4 / 10) + aRandom * 15) * (2 / 10))"
    "Snow_vertex chaos target aRandom uTime 1
       = Vector3 (vx target + sin (uTime * (5 / 10) + aRandom * 10) * (2 / 10))
                 (vy target + cos (uTime * (3 / 10) + aRandom * 20) * (2 / 10))
                 (vz target + sin (uTime * (4 / 10) + aRandom * 15) * (2 / 10))"
    by (simp_all add: Snow_vertex_def Let_def mix_0 mix_1)
  show ?thesis
    by (intro conjI mid gen_lights gen_orn gen_fol gen_snow orn inst lights fol snow
        easedT_0 easedT_1)
qed

text \<open>
  C6, at the Lights component: its update is \<open>lerp(uProgress, target, delta * 1.0)\<close>
  with no bound on \<open>delta\<close>. A frame that took 2 seconds takes the progress from 0 to 2,
  outside \<open>[0, 1]\<close>; a frame that took exactly 1 second takes a progress of 0.5 to exactly 1.
  (For every other component, and for Lights while \<open>delta < 1\<close>, the invariant holds:
  \<open>progress_step_unit_interval\<close>.)
\<close>

theorem C6_lights_progress_leaves_unit_interval:
  "progress_step TreeLights FORMED initial_progress 2 = 2
   \<and> progress_step TreeLights FORMED (1 / 2) 1 = 1"
  by (simp add: TreeLights_progress_def lerp_def targetMode_def initial_progress_def)


text \<open>
  C3. For the 60 bells of the scene (\<open>scaleRange = [0.25, 0.4]\<close>), with draws in
  \<open>[0, 1)\<close>: the rendered scale of every instance is, on each axis, its stored scale times
  the pulse modulation, that is the progress-dependent factor \<open>0.8 + 0.2 * ease(progress)\<close>
  times the periodic factor \<open>scaleMult\<close> (which is 1 for bells). The modulation is positive,
  and the rendered scale with the modulation taken out lies within \<open>[0.25, 0.4]\<close>, at every
  clock time and for every progress in \<open>[0, 1]\<close>. (With the progress-dependent factor left
  in, the rendered scale lies within \<open>[0.2, 0.4]\<close>.)
\<close>

theorem C3_bell_scale_bounds:
  fixes g :: rng and theme :: string and d :: OrnamentInstance and t time :: real
  assumes "uniform_draws g" and "d \<in> set (Ornaments_data (Scene_bells theme) g)"
    and "0 \<le> t" and "t \<le> 1"
  defines "pulse \<equiv> (8 / 10 + 2 / 10 * easedT t) * Ornaments_scaleMult (Scene_bells theme) t time d"
  defines "rendered \<equiv> t_scale (Ornaments_transform (Scene_bells theme) t time d)"
  shows "length (Ornaments_data (Scene_bells theme) g) = 60
       \<and> 0 < pulse
       \<and> rendered = Vector3 (d_scale d * pulse) (d_scale d * pulse) (d_scale d * pulse)
       \<and> 25 / 100 \<le> vx rendered / pulse \<and> vx rendered / pulse \<le> 4 / 10
       \<and> 25 / 100 \<le> vy rendered / pulse \<and> vy rendered / pulse \<le> 4 / 10
       \<and> 25 / 100 \<le> vz rendered / pulse \<and> vz rendered / pulse \<le> 4 / 10
       \<and> 25 / 100 \<le> d_scale d \<and> d_scale d < 4 / 10
       \<and> Ornaments_scaleMult (Scene_bells theme) t time d = 1
       \<and> 2 / 10 \<le> vx rendered \<and> vx rendered < 4 / 10"
proof -
  have len: "length (Ornaments_data (Scene_bells theme) g) = 60"
    by (simp add: Ornaments_data_def Ornaments_data_from_length) (simp add: Scene_bells_def)
  have rng: "fst (p_scaleRange (Scene_bells theme)) < snd (p_scaleRange (Scene_bells theme))"
    by (simp add: Scene_bells_def)
  from Ornaments_data_from_scale [OF assms(1) rng] assms(2)
  have "fst (p_scaleRange (Scene_bells theme)) \<le> d_scale d
      \<and> d_scale d < snd (p_scaleRange (Scene_bells theme))"
    by (simp add: Ornaments_data_def)
  then have lo: "25 / 100 \<le> d_scale d" and hi: "d_scale d < 4 / 10"
    by (simp_all add: Scene_bells_def)
  from easedT_unit [OF assms(3,4)] have e: "0 \<le> easedT t" "easedT t \<le> 1" by simp_all
  have p: "pulse = 8 / 10 + 2 / 10 * easedT t"
    by (simp add: pulse_def Scene_bells_scaleMult)
  have f0: "8 / 10 \<le> pulse" and f1: "pulse \<le> 1" using e by (simp_all add: p)
  then have pos: "0 < pulse" by simp
  have r: "rendered = Vector3 (d_scale d * pulse) (d_scale d * pulse) (d_scale d * pulse)"
    by (simp add: rendered_def Scene_bells_scale p)
  have q: "vx rendered / pulse = d_scale d" "vy rendered / pulse = d_scale d"
    "vz rendered / pulse = d_scale d"
    using pos by (simp_all add: r)
  have "25 / 100 * (8 / 10) \<le> d_scale d * pulse"
    using lo f0 by (intro mult_mono) simp_all
  then have b0: "2 / 10 \<le> vx rendered" by (simp add: r)
  have "d_scale d * pulse \<le> d_scale d * 1"
    using lo f1 by (intro mult_left_mono) simp_all
  then have b1: "vx rendered < 4 / 10" using hi by (simp add: r)
  from len pos r lo hi b0 b1 show ?thesis
    by (simp only: q Scene_bells_scaleMult) simp
qed

theorem C3_witness:
  "uniform_draws (const_draws (1 / 2))
   \<and> hd (Ornaments_data (Scene_bells ''CLASSIC'') (const_draws (1 / 2)))
       \<in> set (Ornaments_data (Scene_bells ''CLASSIC'') (const_draws (1 / 2)))
   \<and> 25 / 100 \<le> d_scale (hd (Ornaments_data (Scene_bells ''CLASSIC'') (const_draws (1 / 2))))
   \<and> d_scale (hd (Ornaments_data (Scene_bells ''CLASSIC'') (const_draws (1 / 2)))) < 4 / 10
   \<and> length (Ornaments_data (Scene_bells ''CLASSIC'') (const_draws (1 / 2))) = 60"
proof -
  have u: "uniform_draws (const_draws (1 / 2))"
    by (simp add: uniform_draws_def const_draws_def)
  have "Ornaments_data (Scene_bells ''CLASSIC'') (const_draws (1 / 2)) \<noteq> []"
    using Ornaments_data_from_length [of 60 "Scene_bells ''CLASSIC''" "const_draws (1 / 2)"]
    by (auto simp: Ornaments_data_def Scene_bells_def)
  then have m: "hd (Ornaments_data (Scene_bells ''CLASSIC'') (const_draws (1 / 2)))
       \<in> set (Ornaments_data (Scene_bells ''CLASSIC'') (const_draws (1 / 2)))"
    by simp
  have h: "(0::real) \<le> 1 / 2" "(1::real) / 2 \<le> 1" by simp_all
  from C3_bell_scale_bounds [OF u m h, where time = 0] u m show ?thesis by simp
qed

text \<open>
  C4. Take any population of cards \<open>urls\<close> (distinct keys) as rendered from whatever was
  mounted before, and remove the card at index \<open>k\<close>. Every other card \<open>j\<close> is still
  mounted after the next render, with the very same instance state: its chaos position,
  rotation offset and sway speed (and its progress) are unchanged. Its index and total,
  hence its target position, are props and are not part of that state.
\<close>

theorem C4_survivors_keep_chaos_and_params:
  fixes old :: "string \<rightharpoonup> PolaroidItem_state" and urls :: "string list"
    and g0 g1 :: rng and k j :: nat
  assumes "distinct urls" and "k < length urls" and "j < length urls" and "j \<noteq> k"
  defines "before \<equiv> Polaroids_render old urls g0"
  defines "after \<equiv> Polaroids_render before (filter_index k urls) g1"
  shows "\<exists>st. before (urls ! j) = Some st \<and> after (urls ! j) = Some st
           \<and> chaosPos (the (after (urls ! j))) = chaosPos (the (before (urls ! j)))
           \<and> rotationOffset (the (after (urls ! j))) = rotationOffset (the (before (urls ! j)))
           \<and> swaySpeed (the (after (urls ! j))) = swaySpeed (the (before (urls ! j)))"
proof -
  have "urls ! j \<in> set urls" using assms(3) by simp
  then have "urls ! j \<in> fst ` set (Polaroids_children urls)"
    by (simp add: Polaroids_children_keys)
  then have "before (urls ! j) \<noteq> None"
    unfolding before_def Polaroids_render_def by (rule reconcile_mounts)
  then obtain st where st: "before (urls ! j) = Some st" by blast
  have "urls ! j \<in> fst ` set (Polaroids_children (filter_index k urls))"
    using survivor_in_filter_index [OF assms(3,4)] by (simp add: Polaroids_children_keys)
  then have "after (urls ! j) = Some st"
    unfolding after_def Polaroids_render_def using st by (rule reconcile_keeps)
  with st show ?thesis by simp
qed

theorem C4_witness:
  "distinct [''a'', ''b'', ''c''] \<and> (1::nat) < length [''a'', ''b'', ''c'']
   \<and> (2::nat) < length [''a'', ''b'', ''c'']
   \<and> (\<exists>st. Polaroids_render Map.empty [''a'', ''b'', ''c''] (const_draws 0) ''c'' = Some st
         \<and> Polaroids_render (Polaroids_render Map.empty [''a'', ''b'', ''c''] (const_draws 0))
              (filter_index 1 [''a'', ''b'', ''c'']) (const_draws (1 / 2)) ''c'' = Some st)"
  using C4_survivors_keep_chaos_and_params
    [where urls = "[''a'', ''b'', ''c'']" and k = 1 and j = 2 and old = Map.empty
       and ?g0.0 = "const_draws 0" and ?g1.0 = "const_draws (1 / 2)"]
  by auto

text \<open>
  C5. From the photos \<open>[a, b, c]\<close>, rendered with indices 0, 1, 2 of 3, removing index 1
  leaves \<open>[a, c]\<close>, rendered with \<open>a\<close> at index 0 and \<open>c\<close> at index 1 of 2. The target of
  \<open>a\<close> is the same vector as before (slot 0 does not depend on the total, although the
  memo's dependency \<open>total\<close> changed); the target of \<open>c\<close> is a different vector.
\<close>

theorem C5_remove_middle_photo:
  "filter_index 1 [a, b, c] = [a, c]
   \<and> s_photos (removePhoto 1 (s\<lparr>s_photos := [a, b, c]\<rparr>)) = [a, c]
   \<and> Polaroids_children [a, b, c] = [(a, 0, 3), (b, 1, 3), (c, 2, 3)]
   \<and> Polaroids_children [a, c] = [(a, 0, 2), (c, 1, 2)]
   \<and> PolaroidItem_targetPos 0 2 = PolaroidItem_targetPos 0 3
   \<and> PolaroidItem_targetPos 1 2 \<noteq> PolaroidItem_targetPos 2 3"
proof -
  have "s_photos (removePhoto 1 (s\<lparr>s_photos := [a, b, c]\<rparr>)) = filter_index 1 [a, b, c]"
    by (simp add: removePhoto_def)
  then show ?thesis
    by (simp only: filter_index_abc Polaroids_children_3 Polaroids_children_2
        targetPos_index_0 targetPos_1_2_neq_2_3 simp_thms)
qed

end
